theory Spec2Isabelle
  imports Main "HOL-Library.Word"
begin

section \<open>The document processing endpoint of docling-service/app.py\<close>

text \<open>
  The service is one Flask handler, \<open>process_document\<close>, around an external converter.
  The handler is embedded as a function from the state of the process (the module-level
  \<open>converter\<close>, the filesystem, the console) and one request to the handler's outcome and
  the new state. Everything the handler calls that can fail (parsing the form, reading the
  upload, creating, writing and closing the temporary file, the converter, the Markdown
  export, removing the file) is a parameter of the request or of its environment, so that
  every \<open>raise\<close> is a branch, and what is raised is told apart by what
  \<open>except Exception\<close> catches.
\<close>

subsection \<open>Data\<close>

text \<open>
  An \<open>exn\<close> is an instance of Python's \<open>Exception\<close>: a class name and the message that
  \<open>str(e)\<close> gives. \<open>UnboundLocalError v\<close> is what reading the local variable \<open>v\<close>
  raises before its first assignment.
\<close>

datatype exn = Exn string string | UnboundLocalError string

fun str_exn :: "exn \<Rightarrow> string" where
  "str_exn (Exn cls msg) = msg"
| "str_exn (UnboundLocalError v) =
     ''cannot access local variable '' @ [CHR 0x27] @ v @ [CHR 0x27]
       @ '' where it is not associated with a value''"

text \<open>
  What a call can raise: an instance of \<open>Exception\<close>, which \<open>except Exception\<close>
  catches, or an instance of another class under \<open>BaseException\<close> (\<open>SystemExit\<close>,
  \<open>KeyboardInterrupt\<close>, \<open>GeneratorExit\<close>), which it does not catch.
\<close>

datatype raised = Exception exn | BaseException string string

type_synonym bytes = "8 word list"

type_synonym filesystem = "string \<rightharpoonup> bytes"

text \<open>A line of \<open>print\<close>, or the traceback that \<open>traceback.print_exc()\<close> writes.\<close>

datatype log_entry = Print string | Print_exc exn

text \<open>A local variable of the handler: unbound until its first assignment.\<close>

datatype 'a local = Unbound | Bound 'a

text \<open>
  werkzeug's \<open>FileStorage\<close>: the filename of the part, and what \<open>file.read()\<close> does
  (it returns the bytes or raises).
\<close>

record upload =
  filename :: string
  read_result :: "raised + bytes"

text \<open>
  The request: \<open>files\<close> are the file parts of the multipart body, by field name, and
  \<open>parse_fault\<close> is what evaluating \<open>request.files\<close> raises when werkzeug cannot parse
  the form (\<open>RequestEntityTooLarge\<close> when the form exceeds a limit, for one).
\<close>

record request =
  parse_fault :: "raised option"
  files :: "string \<rightharpoonup> upload"

datatype payload = Json "(string \<times> string) list" | Text string

record response =
  status :: nat
  mimetype :: string
  body :: payload

text \<open>
  The conversion collaborator: \<open>convert\<close> reads the file at a path and returns a result
  or raises; \<open>export_to_markdown\<close> stands for \<open>result.document.export_to_markdown()\<close>.
\<close>

record 'd document_converter =
  convert :: "filesystem \<Rightarrow> string \<Rightarrow> raised + 'd"
  export_to_markdown :: "'d \<Rightarrow> raised + string"

text \<open>
  The state that outlives a request: the module-level \<open>converter\<close> (\<open>None\<close> when its
  construction failed), the filesystem, and the console that \<open>print\<close> writes to.
\<close>

record 'd process =
  converter :: "'d document_converter option"
  fs :: filesystem
  console :: "log_entry list"

text \<open>
  What the operating system does during one request: the temporary directory, the random
  names that \<open>tempfile\<close> draws, the size of the buffer of the temporary file (the block
  size of the filesystem), an \<open>OSError\<close> of \<open>os.open\<close> other than
  \<open>FileExistsError\<close>, of the raw write inside \<open>temp_file.write\<close>, of closing the file
  when the \<open>with\<close> block is left, the number of bytes that reached the file when writing
  or closing failed, and the message of the \<open>OSError\<close> of \<open>os.remove\<close>.
\<close>

record io =
  tmpdir :: string
  candidate_names :: "string list"
  buffer_size :: nat
  open_fault :: "exn option"
  write_fault :: "exn option"
  close_fault :: "exn option"
  flushed :: nat
  remove_fault :: "string option"

subsection \<open>Library functions the handler calls\<close>

text \<open>\<open>str(n)\<close> for a length.\<close>

definition digit :: "nat \<Rightarrow> char" where
  "digit d = char_of (48 + d)"

fun str_nat :: "nat \<Rightarrow> string" where
  "str_nat n = (if n < 10 then [digit n] else str_nat (n div 10) @ [digit (n mod 10)])"

declare str_nat.simps [simp del]

text \<open>\<open>p.rfind(c)\<close>: the index of the last \<open>c\<close> in \<open>p\<close>, or \<open>-1\<close>.\<close>

fun rfind_from :: "string \<Rightarrow> char \<Rightarrow> int \<Rightarrow> int \<Rightarrow> int" where
  "rfind_from [] c i found = found"
| "rfind_from (x # xs) c i found = rfind_from xs c (i + 1) (if x = c then i else found)"

definition rfind :: "string \<Rightarrow> char \<Rightarrow> int" where
  "rfind p c = rfind_from p c 0 (- 1)"

text \<open>
  \<open>os.path.splitext\<close> (posixpath, through \<open>genericpath._splitext\<close> with separator
  \<open>/\<close> and no alternative separator). \<open>has_stem\<close> is its \<open>while\<close> loop over the
  leading dots: true when a character other than a dot stands before the last dot.
\<close>

function has_stem :: "string \<Rightarrow> nat \<Rightarrow> nat \<Rightarrow> bool" where
  "has_stem p filenameIndex dotIndex =
     (if filenameIndex < dotIndex
      then (if take 1 (drop filenameIndex p) \<noteq> ''.'' then True
            else has_stem p (filenameIndex + 1) dotIndex)
      else False)"
  by pat_completeness auto
termination
  by (relation "measure (\<lambda>(p, i, d). d - i)") auto

declare has_stem.simps [simp del]

definition splitext :: "string \<Rightarrow> string \<times> string" where
  "splitext p =
     (let sepIndex = rfind p (CHR ''/'');
          dotIndex = rfind p (CHR ''.'')
      in if dotIndex > sepIndex \<and> has_stem p (nat (sepIndex + 1)) (nat dotIndex)
         then (take (nat dotIndex) p, drop (nat dotIndex) p)
         else (p, []))"

text \<open>\<open>os.path.join\<close> of two components (posixpath).\<close>

definition path_join :: "string \<Rightarrow> string \<Rightarrow> string" where
  "path_join a b =
     (if take 1 b = ''/'' then b
      else if a = [] then a @ b
      else if last a = CHR ''/'' then a @ b
      else a @ ''/'' @ b)"

text \<open>
  \<open>tempfile.NamedTemporaryFile(delete=False, suffix=suf)\<close>. \<open>_mkstemp_inner\<close> is the loop
  \<open>for seq in range(TMP_MAX)\<close>: it draws the next name, opens \<open>dir/tmp<name><suf>\<close>
  exclusively, goes on when the file exists, and raises \<open>FileExistsError\<close> after
  \<open>TMP_MAX\<close> tries. The list holds the names that the generator produces; the model
  raises the same error when the list is used up. The new file is empty. \<open>TMP_MAX\<close> is
  \<open>os.TMP_MAX\<close>, 238328 on Linux.
\<close>

definition TMP_MAX :: nat where
  "TMP_MAX = 238328"

definition template :: string where
  "template = ''tmp''"

fun mkstemp_inner :: "filesystem \<Rightarrow> string \<Rightarrow> string \<Rightarrow> nat \<Rightarrow> string list \<Rightarrow> exn + string" where
  "mkstemp_inner f dir suf seq [] =
     Inl (Exn ''FileExistsError'' ''[Errno 17] No usable temporary file name found'')"
| "mkstemp_inner f dir suf seq (name # names) =
     (if TMP_MAX \<le> seq
      then Inl (Exn ''FileExistsError'' ''[Errno 17] No usable temporary file name found'')
      else (let file = path_join dir (template @ name @ suf)
            in if f file \<noteq> None then mkstemp_inner f dir suf (seq + 1) names
               else Inr file))"

definition named_temporary_file :: "io \<Rightarrow> filesystem \<Rightarrow> string \<Rightarrow> exn + string \<times> filesystem" where
  "named_temporary_file env f suf =
     (case open_fault env of
        Some e \<Rightarrow> Inl e
      | None \<Rightarrow>
         (case mkstemp_inner f (tmpdir env) suf 0 (candidate_names env) of
            Inl e \<Rightarrow> Inl e
          | Inr file \<Rightarrow> Inr (file, f(file \<mapsto> []))))"

text \<open>\<open>jsonify(d), code\<close> and \<open>Response(text, mimetype='text/markdown')\<close>.\<close>

definition jsonify :: "(string \<times> string) list \<Rightarrow> nat \<Rightarrow> response" where
  "jsonify d code = \<lparr>status = code, mimetype = ''application/json'', body = Json d\<rparr>"

definition markdown_response :: "string \<Rightarrow> response" where
  "markdown_response text = \<lparr>status = 200, mimetype = ''text/markdown'', body = Text text\<rparr>"

text \<open>Python's truth value of \<open>temp_file_path\<close>: \<open>None\<close> and the empty string are false.\<close>

fun truthy :: "string option \<Rightarrow> bool" where
  "truthy None = False"
| "truthy (Some s) = (s \<noteq> [])"

subsection \<open>Process startup (lines 12 to 20)\<close>

text \<open>
  \<open>startup\<close> is the process that lines 12 to 20 leave when \<open>DocumentConverter()\<close>
  returns an instance or raises an instance of \<open>Exception\<close>, which line 15 catches.
\<close>

definition startup :: "exn + 'd document_converter \<Rightarrow> filesystem \<Rightarrow> 'd process" where
  "startup constructed f =
     (case constructed of
        Inr c \<Rightarrow>
          \<lparr>converter = Some c, fs = f,
           console = [Print ''Docling DocumentConverter initialized successfully.'']\<rparr>
      | Inl e \<Rightarrow>
          \<lparr>converter = None, fs = f,
           console = [Print (''FATAL: Error initializing DocumentConverter: '' @ str_exn e),
                      Print_exc e]\<rparr>)"

text \<open>
  Lines 12 to 20 for everything \<open>DocumentConverter()\<close> can do: what \<open>except Exception\<close>
  does not catch leaves the module, and there is no process to serve requests.
\<close>

definition load_module :: "raised + 'd document_converter \<Rightarrow> filesystem \<Rightarrow> raised + 'd process" where
  "load_module constructed f =
     (case constructed of
        Inr c \<Rightarrow> Inr (startup (Inr c) f)
      | Inl (Exception e) \<Rightarrow> Inr (startup (Inl e) f)
      | Inl (BaseException cls msg) \<Rightarrow> Inl (BaseException cls msg))"

subsection \<open>The handler (lines 23 to 89)\<close>

text \<open>
  Lines 54 to 58: the \<open>with\<close> block that stages the upload. The result is the exception
  that left the block (if any), the value of \<open>temp_file_path\<close>, the filesystem and the
  lines printed. The temporary file is buffered: \<open>temp_file.write\<close> writes to the file
  itself, and so can raise, only when the bytes do not fit into the buffer; bytes that fit
  are written when the file is closed. The path is recorded after the write; the file is
  closed when the block is left, also by an exception, and an exception of the close
  replaces the one of the write.
\<close>

definition staging ::
  "io \<Rightarrow> filesystem \<Rightarrow> string \<Rightarrow> bytes \<Rightarrow> exn option \<times> string option \<times> filesystem \<times> log_entry list" where
  "staging env f original_filename file_bytes =
     (case named_temporary_file env f (snd (splitext original_filename)) of
        Inl e \<Rightarrow> (Some e, None, f, [])
      | Inr (name, f1) \<Rightarrow>
         (case (if buffer_size env < length file_bytes then write_fault env else None) of
            Some e \<Rightarrow>
              (let f2 = f1(name \<mapsto> take (flushed env) file_bytes)
               in case close_fault env of
                    Some e' \<Rightarrow> (Some e', None, f2, [])
                  | None \<Rightarrow> (Some e, None, f2, []))
          | None \<Rightarrow>
              (let printed = [Print (''Original file temporarily saved to: '' @ name)]
               in case close_fault env of
                    Some e' \<Rightarrow>
                      (Some e', Some name, f1(name \<mapsto> take (flushed env) file_bytes), printed)
                  | None \<Rightarrow> (None, Some name, f1(name \<mapsto> file_bytes), printed))))"

text \<open>Lines 61 to 73: the guard, the conversion and the export.\<close>

definition docling_processing ::
  "'d document_converter \<Rightarrow> filesystem \<Rightarrow> string option \<Rightarrow> (raised + response) \<times> log_entry list" where
  "docling_processing c f temp_file_path =
     (if \<not> truthy temp_file_path
      then (Inr (jsonify [(''error'', ''Internal error: Temp file path not set.'')] 500), [])
      else
        (let path = the temp_file_path;
             l1 = [Print (''Processing full PDF with docling: '' @ path)]
         in case convert c f path of
              Inl e \<Rightarrow> (Inl e, l1)
            | Inr result \<Rightarrow>
               (let l2 = l1 @ [Print ''Docling conversion successful (processed full document).'']
                in case export_to_markdown c result of
                     Inl e \<Rightarrow> (Inl e, l2)
                   | Inr markdown_output \<Rightarrow>
                       (Inr (markdown_response markdown_output),
                        l2 @ [Print (''Successfully exported full document to Markdown (''
                                @ str_nat (length markdown_output)
                                @ '' chars). Returning response.'')]))))"

text \<open>
  Lines 48 to 73: the body of \<open>try\<close>. \<open>temp_file_path\<close> is first assigned on line 54,
  after \<open>file.read()\<close>: when the read raises, the variable is still unbound.
\<close>

definition try_block ::
  "'d document_converter \<Rightarrow> io \<Rightarrow> upload \<Rightarrow> filesystem \<Rightarrow>
     (raised + response) \<times> string option local \<times> filesystem \<times> log_entry list" where
  "try_block c env file f =
     (case read_result file of
        Inl e \<Rightarrow> (Inl e, Unbound, f, [])
      | Inr file_bytes \<Rightarrow>
         (let l0 = [Print (''Received file: '' @ filename file @ '', size: ''
                      @ str_nat (length file_bytes) @ '' bytes'')]
          in case staging env f (filename file) file_bytes of
               (Some e, temp_file_path, f1, l1) \<Rightarrow>
                 (Inl (Exception e), Bound temp_file_path, f1, l0 @ l1)
             | (None, temp_file_path, f1, l1) \<Rightarrow>
                 (case docling_processing c f1 temp_file_path of
                    (out, l2) \<Rightarrow> (out, Bound temp_file_path, f1, l0 @ l1 @ l2))))"

text \<open>Lines 76 to 80: the body of \<open>except Exception as e\<close>.\<close>

definition except_block :: "string \<Rightarrow> exn \<Rightarrow> response \<times> log_entry list" where
  "except_block original_filename e =
     (jsonify [(''error'', ''Failed to process document with docling''),
               (''details'', str_exn e)] 500,
      [Print (''Error during docling processing for '' @ original_filename @ '': '' @ str_exn e),
       Print_exc e])"

text \<open>
  Lines 82 to 89: \<open>finally\<close>. The condition reads \<open>temp_file_path\<close> first, which raises
  when the variable is unbound; \<open>os.remove\<close> may raise \<open>OSError\<close>, which is printed.
  The result is the exception that leaves the block, if any.
\<close>

definition finally_block ::
  "io \<Rightarrow> string option local \<Rightarrow> filesystem \<Rightarrow> exn option \<times> filesystem \<times> log_entry list" where
  "finally_block env temp_file_path f =
     (case temp_file_path of
        Unbound \<Rightarrow> (Some (UnboundLocalError ''temp_file_path''), f, [])
      | Bound v \<Rightarrow>
         (if truthy v \<and> f (the v) \<noteq> None
          then (case remove_fault env of
                  None \<Rightarrow> (None, f((the v) := None),
                            [Print (''Removed temporary file: '' @ the v)])
                | Some msg \<Rightarrow> (None, f,
                            [Print (''Error removing temporary file '' @ the v @ '': '' @ msg)]))
          else (None, f, [])))"

text \<open>
  The handler. \<open>request.files\<close> is evaluated on line 35, outside \<open>try\<close>: what it raises
  leaves the handler. Line 75 catches the instances of \<open>Exception\<close> that leave \<open>try\<close>;
  anything else stays pending. \<open>finally\<close> runs in every case, and an exception raised
  in \<open>finally\<close> replaces the response or the exception that was pending.
\<close>

definition process_document :: "io \<Rightarrow> request \<Rightarrow> 'd process \<Rightarrow> (raised + response) \<times> 'd process" where
  "process_document env req st =
     (case converter st of
        None \<Rightarrow>
          (Inr (jsonify [(''error'', ''Docling converter not initialized during startup'')] 503),
           st\<lparr>console := console st @ [Print ''Error: Docling converter was not initialized.'']\<rparr>)
      | Some c \<Rightarrow>
         (case parse_fault req of
            Some r \<Rightarrow> (Inl r, st)
          | None \<Rightarrow>
         (case files req ''file'' of
            None \<Rightarrow>
              (Inr (jsonify [(''error'', ''No file part in the request'')] 400),
               st\<lparr>console := console st
                     @ [Print (''Error: No '' @ [CHR 0x27] @ ''file'' @ [CHR 0x27]
                                @ '' part in the request.'')]\<rparr>)
          | Some file \<Rightarrow>
             (if filename file = []
              then (Inr (jsonify [(''error'', ''No selected file'')] 400),
                    st\<lparr>console := console st @ [Print ''Error: No file selected.'']\<rparr>)
              else
                (case try_block c env file (fs st) of
                   (out, temp_file_path, f1, l1) \<Rightarrow>
                     (let (pending, l2) =
                            (case out of
                               Inr r \<Rightarrow> (Inr r, [])
                             | Inl (Exception e) \<Rightarrow>
                                 (Inr (fst (except_block (filename file) e)),
                                  snd (except_block (filename file) e))
                             | Inl (BaseException cls msg) \<Rightarrow> (Inl (BaseException cls msg), []))
                      in case finally_block env temp_file_path f1 of
                           (raised, f2, l3) \<Rightarrow>
                             ((case raised of Some e \<Rightarrow> Inl (Exception e) | None \<Rightarrow> pending),
                              st\<lparr>fs := f2, console := console st @ l1 @ l2 @ l3\<rparr>)))))))"

text \<open>Requests served one after the other, each with its environment.\<close>

fun serve :: "(io \<times> request) list \<Rightarrow> 'd process \<Rightarrow> (raised + response) list \<times> 'd process" where
  "serve [] st = ([], st)"
| "serve ((env, req) # rest) st =
     (case process_document env req st of
        (out, st1) \<Rightarrow> (case serve rest st1 of (outs, st2) \<Rightarrow> (out # outs, st2)))"

subsection \<open>Concrete requests\<close>

text \<open>
  A converter whose result is the size of the file and whose Markdown is one \<open>#\<close> per
  byte, a process started with it, a well-behaved environment, and the requests and
  environments used below.
\<close>

definition example_converter :: "nat document_converter" where
  "example_converter =
     \<lparr>convert = (\<lambda>f p. case f p of
                           None \<Rightarrow> Inl (Exception (Exn ''FileNotFoundError'' ''no such file''))
                         | Some b \<Rightarrow> Inr (length b)),
      export_to_markdown = (\<lambda>d. Inr (replicate d (CHR ''#'')))\<rparr>"

definition example_process :: "nat process" where
  "example_process = startup (Inr example_converter) Map.empty"

definition failed_process :: "nat process" where
  "failed_process = startup (Inl (Exn ''RuntimeError'' ''models not found'')) Map.empty"

text \<open>A converter that calls \<open>sys.exit(1)\<close>: \<open>convert\<close> raises \<open>SystemExit\<close>.\<close>

definition exiting_converter :: "nat document_converter" where
  "exiting_converter =
     \<lparr>convert = (\<lambda>f p. Inl (BaseException ''SystemExit'' ''1'')),
      export_to_markdown = (\<lambda>d. Inr [])\<rparr>"

definition exiting_process :: "nat process" where
  "exiting_process = startup (Inr exiting_converter) Map.empty"

definition example_io :: io where
  "example_io =
     \<lparr>tmpdir = ''/tmp'', candidate_names = [''abc''], buffer_size = 8192, open_fault = None,
      write_fault = None, close_fault = None, flushed = 0, remove_fault = None\<rparr>"

definition example_upload :: upload where
  "example_upload = \<lparr>filename = ''a.pdf'', read_result = Inr [1, 2, 3]\<rparr>"

definition example_request :: request where
  "example_request = \<lparr>parse_fault = None, files = [''file'' \<mapsto> example_upload]\<rparr>"

definition no_file_request :: request where
  "no_file_request = \<lparr>parse_fault = None, files = Map.empty\<rparr>"

definition no_name_request :: request where
  "no_name_request =
     \<lparr>parse_fault = None,
      files = [''file'' \<mapsto> \<lparr>filename = [], read_result = Inr []\<rparr>]\<rparr>"

text \<open>
  A request without a \<open>file\<close> field whose form exceeds werkzeug's limit on form data:
  \<open>request.files\<close> raises \<open>RequestEntityTooLarge\<close>.
\<close>

definition oversized_form_request :: request where
  "oversized_form_request =
     \<lparr>parse_fault = Some (Exception (Exn ''RequestEntityTooLarge''
                                        ''413 Request Entity Too Large'')),
      files = Map.empty\<rparr>"

text \<open>An upload too large for the memory: \<open>file.read()\<close> raises \<open>MemoryError\<close>.\<close>

definition unreadable_request :: request where
  "unreadable_request =
     \<lparr>parse_fault = None,
      files = [''file'' \<mapsto> \<lparr>filename = ''a.pdf'',
                               read_result = Inl (Exception (Exn ''MemoryError'' []))\<rparr>]\<rparr>"

text \<open>An upload of 10000 bytes, more than the buffer of the temporary file holds.\<close>

definition large_upload :: upload where
  "large_upload = \<lparr>filename = ''a.pdf'', read_result = Inr (replicate 10000 0)\<rparr>"

definition large_request :: request where
  "large_request = \<lparr>parse_fault = None, files = [''file'' \<mapsto> large_upload]\<rparr>"

text \<open>
  A full disk, for an upload larger than the buffer: the raw write inside
  \<open>temp_file.write\<close> raises and nothing reached the file.
\<close>

definition disk_full_io :: io where
  "disk_full_io =
     example_io\<lparr>write_fault := Some (Exn ''OSError'' ''[Errno 28] No space left on device'')\<rparr>"

text \<open>
  A full disk, for an upload that fits into the buffer: the bytes are written when the file
  is closed, and that write raises.
\<close>

definition disk_full_at_close_io :: io where
  "disk_full_at_close_io =
     example_io\<lparr>write_fault := Some (Exn ''OSError'' ''[Errno 28] No space left on device''),
                 close_fault := Some (Exn ''OSError'' ''[Errno 28] No space left on device'')\<rparr>"

text \<open>\<open>os.remove\<close> raises \<open>OSError\<close>.\<close>

definition busy_io :: io where
  "busy_io = example_io\<lparr>remove_fault := Some ''[Errno 16] Device or resource busy''\<rparr>"

text \<open>A second random name after the first.\<close>

definition second_io :: io where
  "second_io = example_io\<lparr>candidate_names := [''abc'', ''abd'']\<rparr>"

section \<open>Properties\<close>

subsection \<open>Temporary names\<close>

lemma path_join_nonempty: "b \<noteq> [] \<Longrightarrow> path_join a b \<noteq> []"
  by (simp add: path_join_def)

lemma path_join_ends: "\<exists>stem. path_join a b = stem @ b"
  by (auto simp: path_join_def intro: exI[of _ "[]"])

lemma mkstemp_inner_Inr:
  "mkstemp_inner f dir suf seq names = Inr file \<Longrightarrow>
     f file = None \<and> (\<exists>name \<in> set names. file = path_join dir (template @ name @ suf))"
  by (induction names arbitrary: seq) (auto simp: Let_def split: if_splits)


lemma named_temporary_file_Inr:
  assumes "named_temporary_file env f suf = Inr (file, f1)"
  shows "f file = None" and "f1 = f(file \<mapsto> [])" and "file \<noteq> []"
    and "\<exists>stem. file = stem @ suf"
proof -
  from assms
  have m: "mkstemp_inner f (tmpdir env) suf 0 (candidate_names env) = Inr file"
    and f1: "f1 = f(file \<mapsto> [])"
    by (auto simp: named_temporary_file_def split: option.splits sum.splits)
  from mkstemp_inner_Inr[OF m] obtain name where
    fresh: "f file = None" and eq: "file = path_join (tmpdir env) (template @ name @ suf)"
    by blast
  show "f file = None" by (rule fresh)
  show "f1 = f(file \<mapsto> [])" by (rule f1)
  show "file \<noteq> []" unfolding eq by (rule path_join_nonempty) (simp add: template_def)
  from path_join_ends[of "tmpdir env" "template @ name @ suf"]
  obtain stem where "file = stem @ template @ name @ suf" unfolding eq by blast
  then have "file = (stem @ template @ name) @ suf" by simp
  then show "\<exists>stem. file = stem @ suf" by blast
qed

text \<open>When the \<open>with\<close> block is left without an exception, the path is recorded.\<close>

lemma staging_None:
  assumes "staging env f fn bs = (None, tfp, f1, l)"
  shows "\<exists>p. tfp = Some p \<and> p \<noteq> [] \<and> f p = None \<and> f1 = f(p \<mapsto> bs)
            \<and> (\<exists>stem. p = stem @ snd (splitext fn))
            \<and> l = [Print (''Original file temporarily saved to: '' @ p)]"
proof -
  from assms obtain p f0 where
    n: "named_temporary_file env f (snd (splitext fn)) = Inr (p, f0)"
    and r: "tfp = Some p" "f1 = f0(p \<mapsto> bs)"
      "l = [Print (''Original file temporarily saved to: '' @ p)]"
    by (auto simp: staging_def Let_def split: sum.splits option.splits prod.splits if_splits)
  from named_temporary_file_Inr[OF n] r show ?thesis by auto
qed

subsection \<open>Requests in sequence\<close>

lemma serve_step:
  "serve ((env, req) # rest) st =
     (fst (process_document env req st) # fst (serve rest (snd (process_document env req st))),
      snd (serve rest (snd (process_document env req st))))"
  by (simp split: prod.splits)

lemma process_document_unavailable:
  "converter st = None \<Longrightarrow>
     process_document env req st =
       (Inr \<lparr>status = 503, mimetype = ''application/json'',
             body = Json [(''error'', ''Docling converter not initialized during startup'')]\<rparr>,
        st\<lparr>console := console st @ [Print ''Error: Docling converter was not initialized.'']\<rparr>)"
  by (simp add: process_document_def jsonify_def)

lemma serve_unavailable:
  "converter st = None \<Longrightarrow>
     fst (serve reqs st) =
       replicate (length reqs)
         (Inr \<lparr>status = 503, mimetype = ''application/json'',
               body = Json [(''error'', ''Docling converter not initialized during startup'')]\<rparr>)
     \<and> converter (snd (serve reqs st)) = None \<and> fs (snd (serve reqs st)) = fs st"
proof (induction reqs arbitrary: st)
  case Nil
  then show ?case by simp
next
  case (Cons r reqs)
  obtain env req where r: "r = (env, req)" by (cases r)
  let ?st1 = "st\<lparr>console := console st @ [Print ''Error: Docling converter was not initialized.'']\<rparr>"
  have c1: "converter ?st1 = None" using Cons.prems by simp
  from Cons.IH[OF c1] show ?case
    unfolding r serve_step process_document_unavailable[OF Cons.prems] by simp
qed

lemma process_document_converter:
  "converter (snd (process_document env req st)) = converter st"
  by (simp add: process_document_def Let_def
        split: option.splits prod.splits sum.splits raised.splits)

lemma serve_converter: "converter (snd (serve reqs st)) = converter st"
proof (induction reqs arbitrary: st)
  case Nil
  then show ?case by simp
next
  case (Cons r reqs)
  obtain env req where r: "r = (env, req)" by (cases r)
  show ?case
    unfolding r serve_step using Cons.IH[of "snd (process_document env req st)"]
    by (simp add: process_document_converter)
qed

subsection \<open>The handler, block by block\<close>

text \<open>
  Once \<open>temp_file_path\<close> is bound, \<open>finally\<close> raises nothing, and the handler returns
  the response of \<open>try\<close> or the one that \<open>except\<close> builds.
\<close>

lemma process_document_body:
  assumes "converter st = Some c" "parse_fault req = None"
    and "files req ''file'' = Some file" "filename file \<noteq> []"
    and "try_block c env file (fs st) = (out, Bound v, f1, l1)"
  shows "fst (process_document env req st) =
           (case out of
              Inr r \<Rightarrow> Inr r
            | Inl (Exception e) \<Rightarrow> Inr (fst (except_block (filename file) e))
            | Inl (BaseException cls msg) \<Rightarrow> Inl (BaseException cls msg))"
  using assms
  by (simp add: process_document_def finally_block_def Let_def
        split: prod.splits sum.splits option.splits raised.splits)

lemma try_block_read:
  assumes "read_result file = Inr file_bytes"
    and "staging env f (filename file) file_bytes = (exc, tfp, f1, l1)"
  shows "fst (try_block c env file f) =
           (case exc of Some e \<Rightarrow> Inl (Exception e)
                      | None \<Rightarrow> fst (docling_processing c f1 tfp))"
    and "fst (snd (try_block c env file f)) = Bound tfp"
    and "fst (snd (snd (try_block c env file f))) = f1"
  using assms by (simp_all add: try_block_def Let_def split: prod.splits option.splits)

lemma docling_processing_out:
  "p \<noteq> [] \<Longrightarrow>
     fst (docling_processing c f (Some p)) =
       (case convert c f p of
          Inl r \<Rightarrow> Inl r
        | Inr result \<Rightarrow>
           (case export_to_markdown c result of
              Inl r \<Rightarrow> Inl r
            | Inr markdown_output \<Rightarrow> Inr (markdown_response markdown_output)))"
  by (simp add: docling_processing_def Let_def split: sum.splits)

lemma staged_response:
  assumes "converter st = Some c" "parse_fault req = None"
    and "files req ''file'' = Some file" "filename file \<noteq> []"
    and "read_result file = Inr file_bytes"
    and "staging env (fs st) (filename file) file_bytes = (None, tfp, f1, l1)"
  shows "fst (process_document env req st) =
           (case fst (docling_processing c f1 tfp) of
              Inr r \<Rightarrow> Inr r
            | Inl (Exception e) \<Rightarrow>
                Inr (jsonify [(''error'', ''Failed to process document with docling''),
                              (''details'', str_exn e)] 500)
            | Inl (BaseException cls msg) \<Rightarrow> Inl (BaseException cls msg))"
proof -
  obtain out v f2 l2 where t: "try_block c env file (fs st) = (out, v, f2, l2)"
    by (cases "try_block c env file (fs st)")
  from try_block_read[OF assms(5,6), of c] t
  have out: "out = fst (docling_processing c f1 tfp)" and v: "v = Bound tfp"
    by simp_all
  from process_document_body[OF assms(1-4) t[unfolded v]]
  show ?thesis by (simp add: out except_block_def split: sum.splits raised.splits)
qed

text \<open>When the read raises, \<open>finally\<close> finds \<open>temp_file_path\<close> unbound.\<close>

lemma read_failure_unbound:
  assumes "converter st = Some c" "parse_fault req = None"
    and "files req ''file'' = Some file" "filename file \<noteq> []"
    and "read_result file = Inl r"
  shows "fst (process_document env req st) =
           Inl (Exception (UnboundLocalError ''temp_file_path''))"
  using assms
  by (simp add: process_document_def try_block_def finally_block_def except_block_def
        split: raised.splits)

text \<open>
  A recorded path names a file that was new and now exists; \<open>finally\<close> removes it
  unless \<open>os.remove\<close> raises, and a failing \<open>os.remove\<close> does not change the response.
\<close>

lemma staging_recorded:
  assumes "staging env f fn bs = (exc, Some p, f1, l)"
  shows "p \<noteq> []" and "f p = None" and "f1 p \<noteq> None"
proof -
  from assms obtain f0 where
    n: "named_temporary_file env f (snd (splitext fn)) = Inr (p, f0)"
    and r: "f1 = f0(p \<mapsto> bs) \<or> f1 = f0(p \<mapsto> take (flushed env) bs)"
    by (auto simp: staging_def Let_def split: sum.splits option.splits prod.splits if_splits)
  from named_temporary_file_Inr[OF n] show "p \<noteq> []" and "f p = None" by simp_all
  from r show "f1 p \<noteq> None" by auto
qed

lemma recorded_path_removed:
  assumes "converter st = Some c" "parse_fault req = None"
    and "files req ''file'' = Some file" "filename file \<noteq> []"
    and "read_result file = Inr file_bytes"
    and "staging env (fs st) (filename file) file_bytes = (exc, Some p, f1, l1)"
    and "remove_fault env = None"
  shows "fs (snd (process_document env req st)) p = None"
proof -
  from try_block_read(2,3)[OF assms(5,6), of c]
  obtain out l where t: "try_block c env file (fs st) = (out, Bound (Some p), f1, l)"
    by (cases "try_block c env file (fs st)") auto
  from staging_recorded[OF assms(6)] assms(7)
  have "finally_block env (Bound (Some p)) f1 =
          (None, f1(p := None), [Print (''Removed temporary file: '' @ p)])"
    by (simp add: finally_block_def)
  with assms(1-4) t show ?thesis
    by (simp add: process_document_def Let_def split: prod.splits sum.splits raised.splits)
qed

lemma remove_failure_keeps_response:
  "fst (process_document (env\<lparr>remove_fault := x\<rparr>) req st) = fst (process_document env req st)"
  by (auto simp: process_document_def try_block_def finally_block_def Let_def staging_def
        named_temporary_file_def
        split: prod.splits sum.splits option.splits local.splits raised.splits)

text \<open>Two files staged one after the other, the first still there, have distinct paths.\<close>

lemma staging_twice_distinct:
  assumes "staging env1 f fn1 bs = (None, tfp1, f1, l1)"
    and "staging env2 f1 fn2 bs = (None, tfp2, f2, l2)"
  shows "tfp1 \<noteq> tfp2 \<and> f2 (the tfp1) = Some bs \<and> f2 (the tfp2) = Some bs"
proof -
  from staging_None[OF assms(1)] obtain p1 where
    p1: "tfp1 = Some p1" "f1 = f(p1 \<mapsto> bs)"
    by blast
  from staging_None[OF assms(2)] obtain p2 where
    p2: "tfp2 = Some p2" "f1 p2 = None" "f2 = f1(p2 \<mapsto> bs)"
    by blast
  from p1 p2 have "p1 \<noteq> p2" by auto
  with p1 p2 show ?thesis by simp
qed

subsection \<open>The concrete requests\<close>

text \<open>The equations that evaluate the handler on a concrete request.\<close>

lemmas handler_defs =
  process_document_def try_block_def staging_def named_temporary_file_def
  docling_processing_def except_block_def finally_block_def startup_def
  jsonify_def markdown_response_def splitext_def rfind_def has_stem.simps
  path_join_def template_def TMP_MAX_def str_nat.simps digit_def Let_def

lemmas example_defs =
  example_converter_def example_process_def failed_process_def exiting_converter_def
  exiting_process_def example_io_def example_upload_def example_request_def
  no_file_request_def no_name_request_def oversized_form_request_def
  unreadable_request_def large_upload_def large_request_def disk_full_io_def
  disk_full_at_close_io_def busy_io_def second_io_def

lemma example_facts:
  "converter example_process = Some example_converter"
  "parse_fault example_request = None"
  "files example_request ''file'' = Some example_upload"
  "filename example_upload \<noteq> []"
  "read_result example_upload = Inr [1, 2, 3]"
  by (simp_all add: example_process_def startup_def example_request_def example_upload_def)

lemma example_deterministic:
  "\<forall>f p f' p'. f p = f' p' \<longrightarrow>
     convert example_converter f p = convert example_converter f' p'"
  by (simp add: example_converter_def)

text \<open>
  On a full disk an upload that fits into the buffer is answered with 500 too, but its
  path was recorded before the close raised, and \<open>finally\<close> removes the file.
\<close>

lemma small_upload_full_disk_removed:
  "fst (process_document disk_full_at_close_io example_request example_process) =
     Inr \<lparr>status = 500, mimetype = ''application/json'',
           body = Json [(''error'', ''Failed to process document with docling''),
                        (''details'', ''[Errno 28] No space left on device'')]\<rparr>
   \<and> fs (snd (process_document disk_full_at_close_io example_request example_process))
        ''/tmp/tmpabc.pdf'' = None"
  by (simp add: handler_defs example_defs)

text \<open>What evaluating \<open>request.files\<close> raises leaves the handler, and nothing else happens.\<close>

lemma parse_failure_leaves_handler:
  "converter st = Some c \<Longrightarrow> parse_fault req = Some r \<Longrightarrow>
     process_document env req st = (Inl r, st)"
  by (simp add: process_document_def)

text \<open>
  An instance of another class than \<open>Exception\<close> raised by the converter leaves the
  handler, whatever \<open>os.remove\<close> does.
\<close>

lemma base_exception_leaves_handler:
  assumes "converter st = Some c" "parse_fault req = None"
    and "files req ''file'' = Some file" "filename file \<noteq> []"
    and "read_result file = Inr file_bytes"
    and "staging env (fs st) (filename file) file_bytes = (None, tfp, f1, l1)"
    and "convert c f1 (the tfp) = Inl (BaseException cls msg)"
  shows "fst (process_document env req st) = Inl (BaseException cls msg)"
proof -
  from staging_None[OF assms(6)] obtain p where p: "tfp = Some p" "p \<noteq> []"
    by blast
  with assms(7) have "fst (docling_processing c f1 tfp) = Inl (BaseException cls msg)"
    by (simp add: docling_processing_out)
  with staged_response[OF assms(1-6)] show ?thesis by simp
qed

subsection \<open>The claims\<close>

text \<open>
  C1. Claimed: every exception raised inside the handler is turned into a JSON error
  response and none leaves the handler. The code does not do this when \<open>file.read()\<close>
  raises: \<open>except\<close> prepares the 500 response, then \<open>finally\<close> reads
  \<open>temp_file_path\<close>, which is assigned only after the read, and the
  \<open>UnboundLocalError\<close> leaves the handler in place of the response.
\<close>

theorem read_failure_escapes_handler:
  "fst (process_document example_io unreadable_request example_process)
     = Inl (Exception (UnboundLocalError ''temp_file_path''))"
  by (simp add: handler_defs example_defs)

text \<open>
  C2. Claimed: a staged file that was created is deleted on every exit path. The code
  records the path only after the write. An upload of 10000 bytes does not fit into the
  buffer of 8192 bytes, so \<open>temp_file.write\<close> writes to the file and, the disk being
  full, raises: the file that \<open>NamedTemporaryFile(delete=False)\<close> created stays, the
  request is answered with 500 and \<open>finally\<close> removes nothing.
\<close>

theorem write_failure_leaks_staged_file:
  "fs example_process ''/tmp/tmpabc.pdf'' = None
   \<and> fst (process_document disk_full_io large_request example_process) =
        Inr \<lparr>status = 500, mimetype = ''application/json'',
              body = Json [(''error'', ''Failed to process document with docling''),
                           (''details'', ''[Errno 28] No space left on device'')]\<rparr>
   \<and> fs (snd (process_document disk_full_io large_request example_process))
        ''/tmp/tmpabc.pdf'' = Some []"
  by (simp add: handler_defs example_defs)

text \<open>
  C3. Claimed: every exception raised by the conversion gives the 500 response. Line 75
  catches instances of \<open>Exception\<close> only: the \<open>SystemExit\<close> of a converter that
  calls \<open>sys.exit\<close> leaves the handler, after \<open>finally\<close> has removed the staged file.
\<close>

theorem system_exit_leaves_handler:
  "convert exiting_converter [''/tmp/tmpabc.pdf'' \<mapsto> [1, 2, 3]] ''/tmp/tmpabc.pdf''
     = Inl (BaseException ''SystemExit'' ''1'')
   \<and> fst (process_document example_io example_request exiting_process)
       = Inl (BaseException ''SystemExit'' ''1'')
   \<and> fs (snd (process_document example_io example_request exiting_process))
        ''/tmp/tmpabc.pdf'' = None"
  by (simp add: handler_defs example_defs)

text \<open>
  C3, as the handler has it. For a request that passed the checks and whose upload was
  read: when an exception \<open>e\<close> leaves the staging block, or the conversion of the staged
  file raises an instance \<open>e\<close> of \<open>Exception\<close>, or the conversion returns and the Markdown
  export raises an instance \<open>e\<close> of \<open>Exception\<close>, the response is 500 with the body
  \<open>{"error": "Failed to process document with docling", "details": str(e)}\<close>.
\<close>

theorem processing_failure_500:
  assumes "converter st = Some c" "parse_fault req = None"
    and "files req ''file'' = Some file" "filename file \<noteq> []"
    and "read_result file = Inr file_bytes"
    and "staging env (fs st) (filename file) file_bytes = (Some e, tfp, f1, l1)
         \<or> (staging env (fs st) (filename file) file_bytes = (None, tfp, f1, l1)
              \<and> convert c f1 (the tfp) = Inl (Exception e))
         \<or> (staging env (fs st) (filename file) file_bytes = (None, tfp, f1, l1)
              \<and> (\<exists>result. convert c f1 (the tfp) = Inr result
                            \<and> export_to_markdown c result = Inl (Exception e)))"
  shows "fst (process_document env req st) =
           Inr \<lparr>status = 500, mimetype = ''application/json'',
                 body = Json [(''error'', ''Failed to process document with docling''),
                              (''details'', str_exn e)]\<rparr>"
proof -
  obtain out v f2 l2 where t: "try_block c env file (fs st) = (out, v, f2, l2)"
    by (cases "try_block c env file (fs st)")
  from assms(6) obtain exc where
    s: "staging env (fs st) (filename file) file_bytes = (exc, tfp, f1, l1)"
    by blast
  from try_block_read[OF assms(5) s, of c] t
  have out: "out = (case exc of Some e \<Rightarrow> Inl (Exception e)
                              | None \<Rightarrow> fst (docling_processing c f1 tfp))"
    and v: "v = Bound tfp"
    by simp_all
  have "out = Inl (Exception e)"
  proof -
    from assms(6) s consider "exc = Some e"
      | "exc = None" "convert c f1 (the tfp) = Inl (Exception e)"
      | result where "exc = None" "convert c f1 (the tfp) = Inr result"
          "export_to_markdown c result = Inl (Exception e)"
      by auto
    then show ?thesis
    proof cases
      case 1
      then show ?thesis by (simp add: out)
    next
      case 2
      with s staging_None[of env "fs st" "filename file" file_bytes tfp f1 l1]
      show ?thesis by (auto simp: out docling_processing_def Let_def)
    next
      case 3
      with s staging_None[of env "fs st" "filename file" file_bytes tfp f1 l1]
      show ?thesis by (auto simp: out docling_processing_def Let_def)
    qed
  qed
  with process_document_body[OF assms(1-4) t[unfolded v]]
  show ?thesis by (simp add: except_block_def jsonify_def)
qed

theorem processing_failure_500_witness:
  "fst (staging disk_full_io (fs example_process) (filename large_upload) (replicate 10000 0))
     = Some (Exn ''OSError'' ''[Errno 28] No space left on device'')
   \<and> fst (process_document disk_full_io large_request example_process) =
        Inr \<lparr>status = 500, mimetype = ''application/json'',
              body = Json [(''error'', ''Failed to process document with docling''),
                           (''details'', ''[Errno 28] No space left on device'')]\<rparr>"
proof -
  let ?s = "staging disk_full_io (fs example_process) (filename large_upload)
              (replicate 10000 0)"
  have r: "fst ?s = Some (Exn ''OSError'' ''[Errno 28] No space left on device'')"
    by (simp add: handler_defs example_defs)
  then have s: "?s = (Some (Exn ''OSError'' ''[Errno 28] No space left on device''),
                      fst (snd ?s), fst (snd (snd ?s)), snd (snd (snd ?s)))"
    by (cases ?s) simp
  have h: "converter example_process = Some example_converter"
    "parse_fault large_request = None"
    "files large_request ''file'' = Some large_upload"
    "filename large_upload \<noteq> []"
    "read_result large_upload = Inr (replicate 10000 0)"
    by (simp_all add: example_process_def startup_def large_request_def large_upload_def)
  from processing_failure_500[OF h disjI1, OF s] r
  show ?thesis by simp
qed

text \<open>
  C4. When the construction of the converter failed at startup, every request of any
  sequence of requests is answered with 503 and the error that names the missing
  converter, and the converter is still absent afterwards: nothing constructs it again.
\<close>

theorem unavailable_503_forever:
  "fst (serve reqs (startup (Inl e) f :: 'd process)) =
       replicate (length reqs)
         (Inr \<lparr>status = 503, mimetype = ''application/json'',
               body = Json [(''error'', ''Docling converter not initialized during startup'')]\<rparr>)
     \<and> converter (snd (serve reqs (startup (Inl e) f :: 'd process))) = None"
proof -
  have "converter (startup (Inl e) f :: 'd process) = None" by (simp add: startup_def)
  from serve_unavailable[OF this, of reqs] show ?thesis by simp
qed

theorem unavailable_503_forever_witness:
  "fst (serve [(example_io, example_request), (disk_full_io, no_file_request)] failed_process) =
     [Inr \<lparr>status = 503, mimetype = ''application/json'',
            body = Json [(''error'', ''Docling converter not initialized during startup'')]\<rparr>,
      Inr \<lparr>status = 503, mimetype = ''application/json'',
            body = Json [(''error'', ''Docling converter not initialized during startup'')]\<rparr>]"
  using unavailable_503_forever
    [of "[(example_io, example_request), (disk_full_io, no_file_request)]"
        "Exn ''RuntimeError'' ''models not found''" Map.empty, where ?'d = nat]
  by (simp add: failed_process_def numeral_2_eq_2)

text \<open>
  C5. For a request whose staged upload the converter converts and exports without
  raising, the response has status 200, content type \<open>text/markdown\<close>, and as body the
  exported Markdown, unchanged.
\<close>

theorem success_markdown_verbatim:
  assumes "converter st = Some c" "parse_fault req = None"
    and "files req ''file'' = Some file" "filename file \<noteq> []"
    and "read_result file = Inr file_bytes"
    and "staging env (fs st) (filename file) file_bytes = (None, tfp, f1, l1)"
    and "convert c f1 (the tfp) = Inr result"
    and "export_to_markdown c result = Inr markdown_output"
  shows "fst (process_document env req st) =
           Inr \<lparr>status = 200, mimetype = ''text/markdown'', body = Text markdown_output\<rparr>"
proof -
  obtain out v f2 l2 where t: "try_block c env file (fs st) = (out, v, f2, l2)"
    by (cases "try_block c env file (fs st)")
  from try_block_read[OF assms(5,6), of c] t
  have out: "out = fst (docling_processing c f1 tfp)" and v: "v = Bound tfp"
    by simp_all
  from staging_None[OF assms(6)] assms(7,8)
  have "out = Inr (markdown_response markdown_output)"
    by (auto simp: out docling_processing_def Let_def)
  with process_document_body[OF assms(1-4) t[unfolded v]]
  show ?thesis by (simp add: markdown_response_def)
qed

theorem success_markdown_verbatim_witness:
  "fst (staging example_io (fs example_process) (filename example_upload) [1, 2, 3]) = None
   \<and> fst (process_document example_io example_request example_process) =
        Inr \<lparr>status = 200, mimetype = ''text/markdown'', body = Text ''###''\<rparr>"
proof -
  let ?s = "staging example_io (fs example_process) (filename example_upload) [1, 2, 3]"
  have r: "fst ?s = None"
    by (simp add: handler_defs example_defs)
  then have s: "?s = (None, fst (snd ?s), fst (snd (snd ?s)), snd (snd (snd ?s)))"
    by (cases ?s) simp
  have c: "convert example_converter (fst (snd (snd ?s))) (the (fst (snd ?s))) = Inr 3"
    by (simp add: handler_defs example_defs)
  have e: "export_to_markdown example_converter 3 = Inr ''###''"
    by (simp add: example_converter_def numeral_3_eq_3)
  from success_markdown_verbatim[OF example_facts s c e] r
  show ?thesis by simp
qed

text \<open>
  C6. Claimed: every request without a \<open>file\<close> field is answered with 400. Line 35
  evaluates \<open>request.files\<close> outside \<open>try\<close>: for a request without a \<open>file\<close>
  field whose form werkzeug refuses to parse, the \<open>RequestEntityTooLarge\<close> leaves the
  handler.
\<close>

theorem oversized_form_not_400:
  "converter example_process = Some example_converter
   \<and> files oversized_form_request ''file'' = None
   \<and> fst (process_document example_io oversized_form_request example_process)
       = Inl (Exception (Exn ''RequestEntityTooLarge'' ''413 Request Entity Too Large''))"
  by (simp add: handler_defs example_defs)

text \<open>
  C6, as the handler has it. With the converter available and \<open>request.files\<close>
  evaluated without an exception: a request without a \<open>file\<close> field is answered with
  400 and \<open>No file part in the request\<close>; a request whose \<open>file\<close> field has the empty
  filename is answered with 400 and \<open>No selected file\<close>; in both cases the filesystem is
  as before, so no file was staged.
\<close>

theorem precondition_checks_400:
  assumes "converter st = Some c" "parse_fault req = None"
  shows "(files req ''file'' = None \<longrightarrow>
            fst (process_document env req st) =
              Inr \<lparr>status = 400, mimetype = ''application/json'',
                    body = Json [(''error'', ''No file part in the request'')]\<rparr>
            \<and> fs (snd (process_document env req st)) = fs st)
       \<and> (\<forall>file. files req ''file'' = Some file \<and> filename file = [] \<longrightarrow>
            fst (process_document env req st) =
              Inr \<lparr>status = 400, mimetype = ''application/json'',
                    body = Json [(''error'', ''No selected file'')]\<rparr>
            \<and> fs (snd (process_document env req st)) = fs st)"
  using assms by (simp add: process_document_def jsonify_def)

theorem precondition_checks_400_witness:
  "converter example_process = Some example_converter
   \<and> parse_fault no_file_request = None
   \<and> files no_file_request ''file'' = None
   \<and> fst (process_document example_io no_file_request example_process) =
        Inr \<lparr>status = 400, mimetype = ''application/json'',
              body = Json [(''error'', ''No file part in the request'')]\<rparr>
   \<and> parse_fault no_name_request = None
   \<and> files no_name_request ''file'' = Some \<lparr>filename = [], read_result = Inr []\<rparr>
   \<and> fst (process_document example_io no_name_request example_process) =
        Inr \<lparr>status = 400, mimetype = ''application/json'',
              body = Json [(''error'', ''No selected file'')]\<rparr>"
proof -
  have h: "converter example_process = Some example_converter"
    by (simp add: example_process_def startup_def)
  have p: "parse_fault no_file_request = None" "parse_fault no_name_request = None"
    by (simp_all add: no_file_request_def no_name_request_def)
  show ?thesis
    using h p precondition_checks_400[OF h p(1), of example_io]
      precondition_checks_400[OF h p(2), of example_io]
    by (simp add: no_file_request_def no_name_request_def)
qed



text \<open>
  C8. Claimed: the same bytes submitted in two requests are staged at two distinct paths.
  The first request removes its file before it returns, and the second may draw the same
  name again: both requests below stage at \<open>/tmp/tmpabc.pdf\<close>.
\<close>

theorem same_bytes_same_path:
  "fst (snd (staging example_io (fs example_process) ''a.pdf'' [1, 2, 3]))
     = Some ''/tmp/tmpabc.pdf''
   \<and> fst (snd (staging example_io
                 (fs (snd (process_document example_io example_request example_process)))
                 ''a.pdf'' [1, 2, 3]))
     = Some ''/tmp/tmpabc.pdf''"
  by (simp add: handler_defs example_defs)

text \<open>
  C8, as the handler has it: two requests with the same bytes, served one after the other
  and both staged without an exception, by a converter whose result depends on the content
  of the file only. The two responses are equal, and the two staged paths are distinct
  whenever the first staged file is still there after the first request.
\<close>

theorem same_bytes_equal_responses:
  assumes "converter st = Some c"
    and "\<forall>f p f' p'. f p = f' p' \<longrightarrow> convert c f p = convert c f' p'"
    and "parse_fault req1 = None" "parse_fault req2 = None"
    and "files req1 ''file'' = Some file1" "files req2 ''file'' = Some file2"
    and "filename file1 \<noteq> []" "filename file2 \<noteq> []"
    and "read_result file1 = Inr file_bytes" "read_result file2 = Inr file_bytes"
    and "staging env1 (fs st) (filename file1) file_bytes = (None, tfp1, f1, l1)"
    and "staging env2 (fs (snd (process_document env1 req1 st))) (filename file2) file_bytes
           = (None, tfp2, f2, l2)"
  shows "fst (process_document env2 req2 (snd (process_document env1 req1 st)))
           = fst (process_document env1 req1 st)
         \<and> (fs (snd (process_document env1 req1 st)) (the tfp1) \<noteq> None \<longrightarrow> tfp2 \<noteq> tfp1)"
proof
  let ?st1 = "snd (process_document env1 req1 st)"
  from staging_None[OF assms(11)] obtain p1 where
    p1: "tfp1 = Some p1" "p1 \<noteq> []" "f1 = (fs st)(p1 \<mapsto> file_bytes)"
    by blast
  from staging_None[OF assms(12)] obtain p2 where
    p2: "tfp2 = Some p2" "p2 \<noteq> []" "fs ?st1 p2 = None" "f2 = (fs ?st1)(p2 \<mapsto> file_bytes)"
    by blast
  have c1: "converter ?st1 = Some c"
    using assms(1) by (simp add: process_document_converter)
  have "f1 p1 = f2 p2" by (simp add: p1 p2)
  with assms(2) have "convert c f1 p1 = convert c f2 p2" by blast
  then have "fst (docling_processing c f1 tfp1) = fst (docling_processing c f2 tfp2)"
    by (simp add: p1 p2 docling_processing_out)
  with staged_response[OF assms(1,3,5,7,9,11)] staged_response[OF c1 assms(4,6,8,10,12)]
  show "fst (process_document env2 req2 ?st1) = fst (process_document env1 req1 st)"
    by simp
  show "fs ?st1 (the tfp1) \<noteq> None \<longrightarrow> tfp2 \<noteq> tfp1"
    using p1 p2 by auto
qed

theorem same_bytes_equal_responses_witness:
  "fst (process_document second_io example_request
          (snd (process_document busy_io example_request example_process)))
     = fst (process_document busy_io example_request example_process)
   \<and> fs (snd (process_document busy_io example_request example_process)) ''/tmp/tmpabc.pdf''
       \<noteq> None
   \<and> fst (snd (staging busy_io (fs example_process) (filename example_upload) [1, 2, 3]))
       = Some ''/tmp/tmpabc.pdf''
   \<and> fst (snd (staging second_io
                 (fs (snd (process_document busy_io example_request example_process)))
                 (filename example_upload) [1, 2, 3]))
       = Some ''/tmp/tmpabd.pdf''"
proof -
  let ?s1 = "staging busy_io (fs example_process) (filename example_upload) [1, 2, 3]"
  let ?st1 = "snd (process_document busy_io example_request example_process)"
  let ?s2 = "staging second_io (fs ?st1) (filename example_upload) [1, 2, 3]"
  have r1: "fst ?s1 = None" by (simp add: handler_defs example_defs)
  then have s1: "?s1 = (None, fst (snd ?s1), fst (snd (snd ?s1)), snd (snd (snd ?s1)))"
    by (cases ?s1) simp
  have r2: "fst ?s2 = None" by (simp add: handler_defs example_defs)
  then have s2: "?s2 = (None, fst (snd ?s2), fst (snd (snd ?s2)), snd (snd (snd ?s2)))"
    by (cases ?s2) simp
  have p1: "fst (snd ?s1) = Some ''/tmp/tmpabc.pdf''" by (simp add: handler_defs example_defs)
  have p2: "fst (snd ?s2) = Some ''/tmp/tmpabd.pdf''" by (simp add: handler_defs example_defs)
  have kept: "fs ?st1 ''/tmp/tmpabc.pdf'' \<noteq> None" by (simp add: handler_defs example_defs)
  from same_bytes_equal_responses[OF example_facts(1) example_deterministic
      example_facts(2) example_facts(2) example_facts(3) example_facts(3)
      example_facts(4) example_facts(4) example_facts(5) example_facts(5) s1 s2] p1 p2 kept
  show ?thesis by simp
qed

text \<open>
  C9. The guard of line 61 never fires: whenever the \<open>with\<close> block is left without an
  exception, \<open>temp_file_path\<close> holds a non-empty string, and no request is answered
  with \<open>Internal error: Temp file path not set.\<close>
\<close>

theorem temp_path_guard_unreachable:
  "(staging env f fn bs = (None, tfp, f1, l) \<longrightarrow> truthy tfp)
   \<and> fst (process_document env' req st) \<noteq>
        Inr \<lparr>status = 500, mimetype = ''application/json'',
              body = Json [(''error'', ''Internal error: Temp file path not set.'')]\<rparr>"
proof
  show "staging env f fn bs = (None, tfp, f1, l) \<longrightarrow> truthy tfp"
    using staging_None[of env f fn bs tfp f1 l] by auto
next
  show "fst (process_document env' req st) \<noteq>
        Inr \<lparr>status = 500, mimetype = ''application/json'',
              body = Json [(''error'', ''Internal error: Temp file path not set.'')]\<rparr>"
    by (auto simp: process_document_def jsonify_def try_block_def Let_def
          docling_processing_def markdown_response_def except_block_def finally_block_def
        split: option.splits prod.splits sum.splits if_splits local.splits raised.splits
        dest!: staging_None)
qed

theorem temp_path_guard_unreachable_witness:
  "staging example_io Map.empty ''a.pdf'' [1, 2, 3] =
     (None, Some ''/tmp/tmpabc.pdf'', [''/tmp/tmpabc.pdf'' \<mapsto> [1, 2, 3]],
      [Print ''Original file temporarily saved to: /tmp/tmpabc.pdf''])
   \<and> truthy (Some ''/tmp/tmpabc.pdf'')"
proof -
  have h: "staging example_io Map.empty ''a.pdf'' [1, 2, 3] =
     (None, Some ''/tmp/tmpabc.pdf'', [''/tmp/tmpabc.pdf'' \<mapsto> [1, 2, 3]],
      [Print ''Original file temporarily saved to: /tmp/tmpabc.pdf''])"
    by (simp add: staging_def named_temporary_file_def example_io_def splitext_def rfind_def
          has_stem.simps path_join_def template_def TMP_MAX_def Let_def)
  from temp_path_guard_unreachable[of example_io Map.empty "''a.pdf''" "[1, 2, 3]"
      "Some ''/tmp/tmpabc.pdf''" "[''/tmp/tmpabc.pdf'' \<mapsto> [1, 2, 3]]"
      "[Print ''Original file temporarily saved to: /tmp/tmpabc.pdf'']"
      example_io example_request example_process] h
  show ?thesis by simp
qed

text \<open>
  C10. Claimed: a request leaves the converter reference and all other state shared by
  requests unchanged. The console and the filesystem are shared too, and a request whose
  staged file cannot be removed changes both.
\<close>

theorem request_changes_shared_state:
  "fs example_process ''/tmp/tmpabc.pdf'' = None
   \<and> fs (snd (process_document busy_io example_request example_process)) ''/tmp/tmpabc.pdf''
        = Some [1, 2, 3]
   \<and> console (snd (process_document busy_io example_request example_process))
        \<noteq> console example_process"
  by (simp add: handler_defs example_defs)

text \<open>
  C10, as the handler has it: startup assigns the converter reference, and no request and
  no sequence of requests changes it.
\<close>

theorem converter_never_reassigned:
  "converter (startup (Inr c) f) = Some c
   \<and> converter (startup (Inl e) f :: 'd process) = None
   \<and> converter (snd (process_document env req st)) = converter st
   \<and> converter (snd (serve reqs st)) = converter st"
  by (simp add: startup_def process_document_converter serve_converter)

end
